theory Spec2Isabelle
  imports Complex_Main
begin

section \<open>JavaScript numbers\<close>

text \<open>
  The handler computes with JavaScript numbers. The model keeps the special values of
  a double apart from the finite ones, so that a division by zero is a value of the model
  and not the HOL convention \<open>x / 0 = 0\<close>. Finite values are exact reals: rounding,
  overflow and the sign of zero are not modelled (a zero divisor counts as \<open>+0\<close>).
\<close>

datatype jsnum = Fin real | PosInf | NegInf | NaN

definition inf_of :: "bool \<Rightarrow> jsnum" where
  "inf_of pos = (if pos then PosInf else NegInf)"

fun nneg :: "jsnum \<Rightarrow> jsnum" where
  "nneg (Fin a) = Fin (- a)"
| "nneg PosInf = NegInf"
| "nneg NegInf = PosInf"
| "nneg NaN = NaN"

fun nadd :: "jsnum \<Rightarrow> jsnum \<Rightarrow> jsnum" where
  "nadd (Fin a) (Fin b) = Fin (a + b)"
| "nadd (Fin a) PosInf = PosInf"
| "nadd (Fin a) NegInf = NegInf"
| "nadd PosInf (Fin b) = PosInf"
| "nadd PosInf PosInf = PosInf"
| "nadd PosInf NegInf = NaN"
| "nadd NegInf (Fin b) = NegInf"
| "nadd NegInf PosInf = NaN"
| "nadd NegInf NegInf = NegInf"
| "nadd NaN b = NaN"
| "nadd a NaN = NaN"

definition nsub :: "jsnum \<Rightarrow> jsnum \<Rightarrow> jsnum" where
  "nsub a b = nadd a (nneg b)"

fun nmul :: "jsnum \<Rightarrow> jsnum \<Rightarrow> jsnum" where
  "nmul (Fin a) (Fin b) = Fin (a * b)"
| "nmul (Fin a) PosInf = (if a = 0 then NaN else inf_of (0 < a))"
| "nmul (Fin a) NegInf = (if a = 0 then NaN else inf_of (a < 0))"
| "nmul PosInf (Fin b) = (if b = 0 then NaN else inf_of (0 < b))"
| "nmul NegInf (Fin b) = (if b = 0 then NaN else inf_of (b < 0))"
| "nmul PosInf PosInf = PosInf"
| "nmul PosInf NegInf = NegInf"
| "nmul NegInf PosInf = NegInf"
| "nmul NegInf NegInf = PosInf"
| "nmul NaN b = NaN"
| "nmul a NaN = NaN"

fun ndiv :: "jsnum \<Rightarrow> jsnum \<Rightarrow> jsnum" where
  "ndiv (Fin a) (Fin b) =
     (if b = 0 then (if a = 0 then NaN else inf_of (0 < a)) else Fin (a / b))"
| "ndiv (Fin a) PosInf = Fin 0"
| "ndiv (Fin a) NegInf = Fin 0"
| "ndiv PosInf (Fin b) = inf_of (0 \<le> b)"
| "ndiv NegInf (Fin b) = inf_of (b < 0)"
| "ndiv PosInf PosInf = NaN"
| "ndiv PosInf NegInf = NaN"
| "ndiv NegInf PosInf = NaN"
| "ndiv NegInf NegInf = NaN"
| "ndiv NaN b = NaN"
| "ndiv a NaN = NaN"

text \<open>\<open>Math.abs\<close>, \<open>Math.sqrt\<close>, \<open>Math.cos\<close>, \<open>Math.sin\<close> and \<open>Math.atan2\<close>.\<close>

fun nabs :: "jsnum \<Rightarrow> jsnum" where
  "nabs (Fin a) = Fin \<bar>a\<bar>"
| "nabs PosInf = PosInf"
| "nabs NegInf = PosInf"
| "nabs NaN = NaN"

fun nsqrt :: "jsnum \<Rightarrow> jsnum" where
  "nsqrt (Fin a) = (if a < 0 then NaN else Fin (sqrt a))"
| "nsqrt PosInf = PosInf"
| "nsqrt NegInf = NaN"
| "nsqrt NaN = NaN"

fun ncos :: "jsnum \<Rightarrow> jsnum" where
  "ncos (Fin a) = Fin (cos a)"
| "ncos a = NaN"

fun nsin :: "jsnum \<Rightarrow> jsnum" where
  "nsin (Fin a) = Fin (sin a)"
| "nsin a = NaN"

definition atan2 :: "real \<Rightarrow> real \<Rightarrow> real" where
  "atan2 y x =
     (if 0 < x then arctan (y / x)
      else if x < 0 then (if 0 \<le> y then arctan (y / x) + pi else arctan (y / x) - pi)
      else if 0 < y then pi / 2
      else if y < 0 then - (pi / 2)
      else 0)"

fun natan2 :: "jsnum \<Rightarrow> jsnum \<Rightarrow> jsnum" where
  "natan2 (Fin y) (Fin x) = Fin (atan2 y x)"
| "natan2 (Fin y) PosInf = Fin 0"
| "natan2 (Fin y) NegInf = Fin (if 0 \<le> y then pi else - pi)"
| "natan2 PosInf (Fin x) = Fin (pi / 2)"
| "natan2 NegInf (Fin x) = Fin (- (pi / 2))"
| "natan2 PosInf PosInf = Fin (pi / 4)"
| "natan2 PosInf NegInf = Fin (3 * pi / 4)"
| "natan2 NegInf PosInf = Fin (- (pi / 4))"
| "natan2 NegInf NegInf = Fin (- (3 * pi / 4))"
| "natan2 NaN x = NaN"
| "natan2 y NaN = NaN"

text \<open>The comparison \<open>a < b\<close> of two numbers: false as soon as one of them is NaN.\<close>

fun nless :: "jsnum \<Rightarrow> jsnum \<Rightarrow> bool" where
  "nless (Fin a) (Fin b) = (a < b)"
| "nless (Fin a) PosInf = True"
| "nless NegInf (Fin b) = True"
| "nless NegInf PosInf = True"
| "nless a b = False"

definition is_finite :: "jsnum \<Rightarrow> bool" where
  "is_finite a = (case a of Fin r \<Rightarrow> True | _ \<Rightarrow> False)"


section \<open>Host objects\<close>

text \<open>
  \<open>OpenLayers.Geometry.Point\<close> (fields \<open>x\<close>, \<open>y\<close>), the \<open>lon\<close>/\<open>lat\<close> pair that
  \<open>getLonLatFromViewPortPx\<close> returns, and \<open>OpenLayers.Bounds\<close>.
\<close>

record point =
  px :: jsnum
  py :: jsnum

record lonlat =
  lon :: jsnum
  lat :: jsnum

record bounds =
  b_left :: jsnum
  b_bottom :: jsnum
  b_right :: jsnum
  b_top :: jsnum

text \<open>
  Modelled from the spec: \<open>Point.distanceTo\<close> of the host library, which is not part of
  the repository; the spec names it the Euclidean distance between the two points.
\<close>

definition distanceTo :: "point \<Rightarrow> point \<Rightarrow> jsnum" where
  "distanceTo p q =
     nsqrt (nadd (nmul (nsub (px p) (px q)) (nsub (px p) (px q)))
                 (nmul (nsub (py p) (py q)) (nsub (py p) (py q))))"

text \<open>
  The geometry collection is opaque to the handler: it only calls \<open>clone\<close>,
  \<open>calculateBounds\<close> (and reads the \<open>bounds\<close> property it stores), \<open>move\<close>, \<open>rotate\<close>
  and \<open>resize\<close>. These methods belong to the host library and are parameters of the
  model: a value of type \<open>'g\<close> is the content of one geometry object, and each method is
  given by its effect on that content. \<open>g_calculateBounds\<close> yields \<open>None\<close> where the
  host leaves the \<open>bounds\<close> property \<open>null\<close>.
\<close>

record 'g geometry_ops =
  g_clone :: "'g \<Rightarrow> 'g"
  g_calculateBounds :: "'g \<Rightarrow> bounds option"
  g_move :: "'g \<Rightarrow> jsnum \<Rightarrow> jsnum \<Rightarrow> 'g"
  g_rotate :: "'g \<Rightarrow> jsnum \<Rightarrow> point \<Rightarrow> 'g"
  g_resize :: "'g \<Rightarrow> jsnum \<Rightarrow> point \<Rightarrow> 'g"

text \<open>
  Geometry objects are mutated in place and shared (\<open>feature.geometry\<close> is the very
  object \<open>dragGeometry\<close>), so they live in a store and the handler holds addresses.
\<close>

type_synonym addr = nat

datatype feature = Feature (f_geometry: addr)

text \<open>
  What a callback of the control receives, and what the handler asks of the layer, its
  renderer and the control. A feature holds its geometry by reference, so what the
  renderer draws is what that object holds when \<open>drawFeature\<close> is called:
  \<open>DrawFeature\<close> records the feature and that content.
\<close>

datatype arg = PointArg point | FeatureArg feature | GeometryArg addr

datatype 'g hostcall =
    RendererClear
  | DestroyFeatures
  | AddFeatures feature
  | DrawFeature "feature option" "'g option"
  | Callback string "arg list"


section \<open>The handler\<close>

text \<open>
  The model covers the drag itself: \<open>setGeometry\<close>, \<open>down\<close>, \<open>move\<close>, \<open>up\<close>, \<open>out\<close>,
  \<open>cancel\<close>, \<open>finalize\<close>, \<open>clear\<close>, \<open>callback\<close>, \<open>measureWidth\<close> and
  \<open>calculateAngle\<close>. Construction, \<open>setOptions\<close>, \<open>activate\<close> and \<open>deactivate\<close> only
  decide whether the sketch layer exists and which callbacks are registered; both are
  fields of the state.
\<close>

text \<open>
  The properties of \<open>OpenLayers.Handler.Geometry\<close>, together with the store of
  geometry objects (\<open>heap\<close>, \<open>nxt\<close> the next unused address) and the calls made to the
  host so far (\<open>trace\<close>). \<open>None\<close> is \<open>null\<close> or \<open>undefined\<close>. \<open>layer\<close> tells whether the
  sketch layer exists; \<open>callbacks\<close> holds the names the control registered.
\<close>

record 'g handler =
  geometry :: "addr option"
  dragGeometry :: "addr option"
  feature :: "feature option"
  angle :: jsnum
  radius :: "jsnum option"
  origin :: "point option"
  layer :: bool
  callbacks :: "string set"
  heap :: "addr \<Rightarrow> 'g"
  nxt :: addr
  trace :: "'g hostcall list"

datatype error = TypeError

text \<open>
  A method either returns or throws; a throw keeps the assignments made before it.
\<close>

datatype 'g outcome = Done "'g handler" | Raised error "'g handler"

fun state_of :: "'g outcome \<Rightarrow> 'g handler" where
  "state_of (Done h) = h"
| "state_of (Raised e h) = h"

fun raised :: "'g outcome \<Rightarrow> bool" where
  "raised (Done h) = False"
| "raised (Raised e h) = True"

text \<open>The content of the geometry of \<open>this.feature\<close>, as the renderer finds it.\<close>

definition shown :: "'g handler \<Rightarrow> 'g option" where
  "shown h = map_option (\<lambda>f. heap h (f_geometry f)) (feature h)"

definition setGeometry :: "addr option \<Rightarrow> 'g handler \<Rightarrow> 'g handler" where
  "setGeometry g h = h\<lparr>geometry := g\<rparr>"

definition clear :: "'g handler \<Rightarrow> 'g handler" where
  "clear h =
     (if layer h then h\<lparr>trace := trace h @ [RendererClear, DestroyFeatures]\<rparr> else h)"

text \<open>\<open>x.clone()\<close> for the object at address \<open>a\<close>: the copy is a new object.\<close>

definition clone_at :: "'g geometry_ops \<Rightarrow> addr \<Rightarrow> 'g handler \<Rightarrow> 'g handler" where
  "clone_at G a h =
     h\<lparr>heap := (heap h)(nxt h := g_clone G (heap h a)), nxt := nxt h + 1\<rparr>"

text \<open>
  \<open>callback\<close> ignores its \<open>args\<close>: whatever the caller passes, the registered function
  is applied to a clone of \<open>dragGeometry\<close>.
\<close>

definition callback ::
  "'g geometry_ops \<Rightarrow> string \<Rightarrow> arg list option \<Rightarrow> 'g handler \<Rightarrow> 'g outcome" where
  "callback G name args h =
     (if geometry h = None then Done h
      else
        let h1 = (if name = ''done'' \<or> name = ''cancel'' then clear h else h) in
        if name \<in> callbacks h1 then
          (case dragGeometry h1 of
             None \<Rightarrow> Raised TypeError h1
           | Some d \<Rightarrow>
               let h2 = clone_at G d h1 in
               Done (h2\<lparr>trace := trace h2 @ [Callback name [GeometryArg (nxt h1)]]\<rparr>))
        else Done h1)"

definition measureWidth :: "'g geometry_ops \<Rightarrow> 'g handler \<Rightarrow> error + jsnum" where
  "measureWidth G h =
     (case dragGeometry h of
        None \<Rightarrow> Inl TypeError
      | Some d \<Rightarrow>
          (case g_calculateBounds G (heap h d) of
             None \<Rightarrow> Inl TypeError
           | Some b \<Rightarrow> Inr (nabs (nsub (b_right b) (b_left b)))))"

definition calculateAngle :: "point \<Rightarrow> 'g handler \<Rightarrow> error + jsnum" where
  "calculateAngle p h =
     (case origin h of
        None \<Rightarrow> Inl TypeError
      | Some orig \<Rightarrow>
          Inr (nmul (natan2 (nsub (py p) (py orig)) (nsub (px p) (px orig)))
                    (ndiv (Fin 180) (Fin pi))))"

text \<open>
  \<open>down\<close>. The event is given by the map position \<open>loc\<close> that the layer computes from
  \<open>evt.xy\<close>; without a layer that call throws. The \<open>bounds\<close> property read for \<open>dx\<close>
  and \<open>dy\<close> is the one \<open>calculateBounds\<close> stored inside \<open>measureWidth\<close>: nothing
  changes the geometry in between.
\<close>

definition down :: "'g geometry_ops \<Rightarrow> lonlat \<Rightarrow> 'g handler \<Rightarrow> 'g outcome" where
  "down G loc h =
     (case geometry h of
        None \<Rightarrow> Done h
      | Some t \<Rightarrow>
          let h1 = clear h;
              d = nxt h1;
              h2 = (clone_at G t h1)\<lparr>dragGeometry := Some d\<rparr>
          in
          if \<not> layer h2 then Raised TypeError h2
          else
            let h3 = h2\<lparr>origin := Some \<lparr>px = lon loc, py = lat loc\<rparr>\<rparr> in
            (case measureWidth G h3 of
               Inl e \<Rightarrow> Raised e h3
             | Inr w \<Rightarrow>
                 let h4 = h3\<lparr>radius := Some w, feature := Some (Feature d),
                             trace := trace h3 @ [AddFeatures (Feature d)]\<rparr>
                 in
                 (case g_calculateBounds G (heap h4 d) of
                    None \<Rightarrow> Raised TypeError h4
                  | Some b \<Rightarrow>
                      let dx = nsub (lon loc) (b_left b);
                          dy = nsub (lat loc) (b_bottom b);
                          h5 = h4\<lparr>heap := (heap h4)(d := g_move G (heap h4 d) dx dy)\<rparr>
                      in
                      callback G ''create''
                        (Some [PointArg \<lparr>px = lon loc, py = lat loc\<rparr>, FeatureArg (Feature d)])
                        h5)))"

text \<open>
  \<open>move\<close>. An \<open>undefined\<close> previous radius makes the quotient NaN, as in JavaScript.
\<close>

definition move :: "'g geometry_ops \<Rightarrow> lonlat \<Rightarrow> 'g handler \<Rightarrow> 'g outcome" where
  "move G loc h =
     (if geometry h = None then Done h
      else if \<not> layer h then Raised TypeError h
      else
        let p = \<lparr>px = lon loc, py = lat loc\<rparr>;
            prevAngle = angle h
        in
        (case calculateAngle p h of
           Inl e \<Rightarrow> Raised e h
         | Inr a \<Rightarrow>
             let h1 = h\<lparr>angle := a\<rparr> in
             (case (dragGeometry h1, origin h1) of
                (Some d, Some orig) \<Rightarrow>
                  let h2 = h1\<lparr>heap := (heap h1)(d := g_rotate G (heap h1 d) (nsub a prevAngle) orig)\<rparr>;
                      prevRadius = (case radius h2 of None \<Rightarrow> NaN | Some r \<Rightarrow> r);
                      r = distanceTo p orig;
                      h3 = h2\<lparr>radius := Some r\<rparr>;
                      h4 = h3\<lparr>heap := (heap h3)(d := g_resize G (heap h3 d) (ndiv r prevRadius) orig)\<rparr>
                  in Done (h4\<lparr>trace := trace h4 @ [DrawFeature (feature h4) (shown h4)]\<rparr>)
              | _ \<Rightarrow> Raised TypeError h1)))"

definition finalize :: "'g handler \<Rightarrow> 'g handler" where
  "finalize h = h\<lparr>origin := None, angle := Fin 0\<rparr>"

definition up :: "'g handler \<Rightarrow> 'g outcome" where
  "up h = Done (finalize h)"

definition out :: "'g handler \<Rightarrow> 'g outcome" where
  "out h = Done (finalize h)"

definition cancel :: "'g geometry_ops \<Rightarrow> 'g handler \<Rightarrow> 'g outcome" where
  "cancel G h =
     (case callback G ''cancel'' None h of
        Raised e h1 \<Rightarrow> Raised e h1
      | Done h1 \<Rightarrow> Done (finalize h1))"

text \<open>
  The drag handler of the host calls \<open>down\<close>, \<open>move\<close>, \<open>up\<close> and \<open>out\<close>; \<open>cancel\<close>
  is called by the application. An exception leaves the handler as it was at the throw,
  and the next event finds it so.
\<close>

datatype event = Down lonlat | Move lonlat | Up | Out | Cancel

fun handle :: "'g geometry_ops \<Rightarrow> event \<Rightarrow> 'g handler \<Rightarrow> 'g outcome" where
  "handle G (Down loc) h = down G loc h"
| "handle G (Move loc) h = move G loc h"
| "handle G Up h = up h"
| "handle G Out h = out h"
| "handle G Cancel h = cancel G h"

fun run :: "'g geometry_ops \<Rightarrow> event list \<Rightarrow> 'g handler \<Rightarrow> 'g handler" where
  "run G [] h = h"
| "run G (e # es) h = run G es (state_of (handle G e h))"

text \<open>
  A handler that was constructed with the callbacks \<open>cbs\<close>, activated, and given the
  geometry object at address 0 by \<open>setGeometry\<close>; no drag has started yet.
\<close>

definition fresh :: "string set \<Rightarrow> 'g \<Rightarrow> 'g handler" where
  "fresh cbs tpl =
     \<lparr>geometry = Some 0, dragGeometry = None, feature = None, angle = Fin 0,
      radius = None, origin = None, layer = True, callbacks = cbs,
      heap = (\<lambda>a. tpl), nxt = 1, trace = []\<rparr>"

text \<open>The width that \<open>measureWidth\<close> reads off a bounds object.\<close>

definition width_of :: "bounds \<Rightarrow> jsnum" where
  "width_of b = nabs (nsub (b_right b) (b_left b))"

text \<open>The bounds \<open>b\<close> translated by \<open>(dx, dy)\<close>.\<close>

definition shift_bounds :: "bounds \<Rightarrow> jsnum \<Rightarrow> jsnum \<Rightarrow> bounds" where
  "shift_bounds b dx dy =
     \<lparr>b_left = nadd (b_left b) dx, b_bottom = nadd (b_bottom b) dy,
      b_right = nadd (b_right b) dx, b_top = nadd (b_top b) dy\<rparr>"


section \<open>A host geometry: a list of points\<close>

text \<open>
  The geometry methods of the host library (\<open>clone\<close>, \<open>calculateBounds\<close>, \<open>move\<close>,
  \<open>rotate\<close>, \<open>resize\<close>) are used by the repository and not contained in it. The
  definitions of this section give one host geometry, modelled from the spec: a shape
  that is the list of its coordinates. It serves as the concrete host wherever a property
  is evaluated, and for the property of the horizontal width.
\<close>

text \<open>
  Modelled from the spec: \<open>bounds\<close> of the host geometry, the axis-aligned minimum and
  maximum of x and y; a shape without coordinates has no bounds.
\<close>

definition extendBounds :: "bounds \<Rightarrow> point \<Rightarrow> bounds" where
  "extendBounds b p =
     \<lparr>b_left = (if nless (px p) (b_left b) then px p else b_left b),
      b_bottom = (if nless (py p) (b_bottom b) then py p else b_bottom b),
      b_right = (if nless (b_right b) (px p) then px p else b_right b),
      b_top = (if nless (b_top b) (py p) then py p else b_top b)\<rparr>"

fun pts_bounds :: "point list \<Rightarrow> bounds option" where
  "pts_bounds [] = None"
| "pts_bounds (p # ps) =
     Some (foldl extendBounds \<lparr>b_left = px p, b_bottom = py p, b_right = px p, b_top = py p\<rparr> ps)"

text \<open>
  Modelled from the spec: \<open>move(dx, dy)\<close> of the host geometry, a translation of every
  coordinate.
\<close>

definition move_pt :: "jsnum \<Rightarrow> jsnum \<Rightarrow> point \<Rightarrow> point" where
  "move_pt dx dy p = \<lparr>px = nadd (px p) dx, py = nadd (py p) dy\<rparr>"

text \<open>
  Modelled from the spec: \<open>rotate(deltaDegrees, pivot)\<close> of the host geometry, which turns
  every coordinate by the angle about the pivot. The spec measures angles as \<open>atan2\<close> does,
  from the positive x-axis towards the positive y-axis, and calls this sense clockwise; the
  rotation turns in that sense, so that a shape follows the pointer.
\<close>

definition rotate_pt :: "jsnum \<Rightarrow> point \<Rightarrow> point \<Rightarrow> point" where
  "rotate_pt deg c p =
     (let th = nmul deg (ndiv (Fin pi) (Fin 180));
          dx = nsub (px p) (px c);
          dy = nsub (py p) (py c)
      in \<lparr>px = nadd (px c) (nsub (nmul dx (ncos th)) (nmul dy (nsin th))),
          py = nadd (py c) (nadd (nmul dx (nsin th)) (nmul dy (ncos th)))\<rparr>)"

text \<open>
  Modelled from the spec: \<open>resize(factor, pivot)\<close> of the host geometry, which scales every
  coordinate's offset from the pivot by the factor, the same in both axes.
\<close>

definition resize_pt :: "jsnum \<Rightarrow> point \<Rightarrow> point \<Rightarrow> point" where
  "resize_pt f c p =
     \<lparr>px = nadd (px c) (nmul f (nsub (px p) (px c))),
      py = nadd (py c) (nmul f (nsub (py p) (py c)))\<rparr>"

text \<open>
  Modelled from the spec: the host geometry as a whole; \<open>clone\<close> copies the content (the
  new object is made by \<open>clone_at\<close>).
\<close>

definition pts_ops :: "point list geometry_ops" where
  "pts_ops =
     \<lparr>g_clone = (\<lambda>ps. ps),
      g_calculateBounds = pts_bounds,
      g_move = (\<lambda>ps dx dy. map (move_pt dx dy) ps),
      g_rotate = (\<lambda>ps deg c. map (rotate_pt deg c) ps),
      g_resize = (\<lambda>ps f c. map (resize_pt f c) ps)\<rparr>"

text \<open>Points and map positions with finite coordinates.\<close>

definition pt :: "real \<Rightarrow> real \<Rightarrow> point" where
  "pt x y = \<lparr>px = Fin x, py = Fin y\<rparr>"

definition lonlat_at :: "real \<Rightarrow> real \<Rightarrow> lonlat" where
  "lonlat_at x y = \<lparr>lon = Fin x, lat = Fin y\<rparr>"

definition finite_pt :: "point \<Rightarrow> bool" where
  "finite_pt p = (is_finite (px p) \<and> is_finite (py p))"

text \<open>A point with finite coordinates, from a pair of reals.\<close>

definition ptp :: "real \<times> real \<Rightarrow> point" where
  "ptp q = pt (fst q) (snd q)"


section \<open>Notions used by the properties\<close>

text \<open>
  The angle of \<open>move\<close> in the words of the specification: \<open>atan2\<close> of the pointer's offset
  from the origin, converted to degrees.
\<close>

definition angle_to :: "point \<Rightarrow> point \<Rightarrow> jsnum" where
  "angle_to p c = nmul (natan2 (nsub (py p) (py c)) (nsub (px p) (px c))) (Fin (180 / pi))"

text \<open>
  The store keeps the template apart: the template object exists, and the handler's
  working geometry is another object.
\<close>

definition store_ok :: "'g handler \<Rightarrow> addr \<Rightarrow> bool" where
  "store_ok h t = (geometry h = Some t \<and> t < nxt h \<and> dragGeometry h \<noteq> Some t)"

text \<open>Shapes and handlers used as concrete inputs.\<close>

definition ex_segment :: "point list" where
  "ex_segment = [pt 0 0, pt 10 0]"

definition ex_triangle :: "point list" where
  "ex_triangle = [pt 2 3, pt 12 3, pt 7 8]"

definition ex_vertical :: "point list" where
  "ex_vertical = [pt 3 0, pt 3 7]"

text \<open>
  A host that reports its bounds with left and right exchanged, so that \<open>right\<close> is
  less than \<open>left\<close>: an input on which the absolute value taken by \<open>measureWidth\<close>
  matters.
\<close>

definition flip_bounds :: "bounds \<Rightarrow> bounds" where
  "flip_bounds b = b\<lparr>b_left := b_right b, b_right := b_left b\<rparr>"

definition ex_mirror_ops :: "point list geometry_ops" where
  "ex_mirror_ops = pts_ops\<lparr>g_calculateBounds := (\<lambda>ps. map_option flip_bounds (pts_bounds ps))\<rparr>"

definition ex_idle :: "point list handler" where
  "ex_idle = fresh {''create'', ''cancel''} ex_triangle"

definition ex_dragging :: "point list handler" where
  "ex_dragging = state_of (down pts_ops (lonlat_at 1 1) ex_idle)"


section \<open>What each method computes\<close>

lemmas eval_defs = down_def move_def measureWidth_def calculateAngle_def callback_def clone_at_def
  clear_def fresh_def pts_ops_def Let_def pt_def lonlat_at_def distanceTo_def nsub_def
  move_pt_def rotate_pt_def resize_pt_def extendBounds_def atan2_def inf_of_def
  cancel_def up_def out_def finalize_def width_of_def shift_bounds_def angle_to_def is_finite_def
  finite_pt_def shown_def eval_nat_numeral

lemma clear_fields [simp]:
  "geometry (clear h) = geometry h" "dragGeometry (clear h) = dragGeometry h"
  "heap (clear h) = heap h" "nxt (clear h) = nxt h" "layer (clear h) = layer h"
  "callbacks (clear h) = callbacks h" "origin (clear h) = origin h" "angle (clear h) = angle h"
  "radius (clear h) = radius h" "feature (clear h) = feature h"
  by (simp_all add: clear_def)

lemma down_result:
  assumes "geometry h = Some t" "layer h" "g_calculateBounds G (g_clone G (heap h t)) = Some b"
  shows "down G loc h = Done (h\<lparr>
          dragGeometry := Some (nxt h),
          origin := Some \<lparr>px = lon loc, py = lat loc\<rparr>,
          radius := Some (width_of b),
          feature := Some (Feature (nxt h)),
          heap := (if ''create'' \<in> callbacks h
                   then (heap h)(nxt h := g_move G (g_clone G (heap h t))
                                     (nsub (lon loc) (b_left b)) (nsub (lat loc) (b_bottom b)),
                                 nxt h + 1 := g_clone G (g_move G (g_clone G (heap h t))
                                     (nsub (lon loc) (b_left b)) (nsub (lat loc) (b_bottom b))))
                   else (heap h)(nxt h := g_move G (g_clone G (heap h t))
                                     (nsub (lon loc) (b_left b)) (nsub (lat loc) (b_bottom b)))),
          nxt := (if ''create'' \<in> callbacks h then nxt h + 2 else nxt h + 1),
          trace := trace h @ [RendererClear, DestroyFeatures, AddFeatures (Feature (nxt h))]
                   @ (if ''create'' \<in> callbacks h
                      then [Callback ''create'' [GeometryArg (nxt h + 1)]] else [])\<rparr>)"
  using assms
  by (cases h) (simp add: down_def Let_def measureWidth_def clone_at_def width_of_def
        callback_def clear_def)

lemma callback_cancel_result:
  assumes "geometry h = Some t" "dragGeometry h = Some d" "''cancel'' \<in> callbacks h"
  shows "callback G ''cancel'' args h =
     Done ((clear h)\<lparr>heap := (heap h)(nxt h := g_clone G (heap h d)), nxt := nxt h + 1,
                  trace := trace (clear h) @ [Callback ''cancel'' [GeometryArg (nxt h)]]\<rparr>)"
  using assms by (simp add: callback_def Let_def clone_at_def)

lemma move_result:
  assumes "geometry h = Some t" "layer h" "origin h = Some c" "dragGeometry h = Some d"
  shows "move G loc h = Done (h\<lparr>
     angle := angle_to \<lparr>px = lon loc, py = lat loc\<rparr> c,
     radius := Some (distanceTo \<lparr>px = lon loc, py = lat loc\<rparr> c),
     heap := (heap h)(d :=
        g_resize G
          (g_rotate G (heap h d) (nsub (angle_to \<lparr>px = lon loc, py = lat loc\<rparr> c) (angle h)) c)
          (ndiv (distanceTo \<lparr>px = lon loc, py = lat loc\<rparr> c)
                (case radius h of None \<Rightarrow> NaN | Some r \<Rightarrow> r)) c),
     trace := trace h @ [DrawFeature (feature h)
        (map_option (\<lambda>f. ((heap h)(d :=
           g_resize G
             (g_rotate G (heap h d) (nsub (angle_to \<lparr>px = lon loc, py = lat loc\<rparr> c) (angle h)) c)
             (ndiv (distanceTo \<lparr>px = lon loc, py = lat loc\<rparr> c)
                   (case radius h of None \<Rightarrow> NaN | Some r \<Rightarrow> r)) c)) (f_geometry f))
          (feature h))]\<rparr>)"
  using assms
  by (cases "feature h") (simp_all add: move_def calculateAngle_def Let_def angle_to_def shown_def)

lemma ex_dragging_eq:
  "ex_dragging =
     \<lparr>geometry = Some 0, dragGeometry = Some 1, feature = Some (Feature 1), angle = Fin 0,
      radius = Some (Fin 10), origin = Some (pt 1 1), layer = True,
      callbacks = {''create'', ''cancel''},
      heap = (\<lambda>a. ex_triangle)(1 := [pt 1 1, pt 11 1, pt 6 6], 2 := [pt 1 1, pt 11 1, pt 6 6]),
      nxt = 3,
      trace = [RendererClear, DestroyFeatures, AddFeatures (Feature 1),
               Callback ''create'' [GeometryArg 2]]\<rparr>"
  by (simp add: ex_dragging_def ex_idle_def ex_triangle_def eval_defs)


section \<open>The move step\<close>

text \<open>
  C1. During an active session (template set, sketch layer present, origin \<open>c\<close>, working
  geometry \<open>d\<close>, stored angle \<open>angle h\<close> and radius \<open>R\<close>) a move event at \<open>loc\<close> returns
  normally. The new angle is \<open>atan2\<close> of the pointer's offset from \<open>c\<close> in degrees and is
  stored; the working geometry is first rotated by the new angle minus the old one about
  \<open>c\<close> and then resized by the new radius over \<open>R\<close> about the same \<open>c\<close>, the new radius
  being the distance from the pointer to \<open>c\<close>, which is stored. The redraw comes after
  both: it is the last host call, and the renderer finds the geometry already rotated and
  resized (the content recorded with \<open>DrawFeature\<close> is read from the store as updated).
  Nothing else changes.
\<close>

theorem move_rotates_then_scales:
  assumes "geometry h = Some t" "layer h" "origin h = Some c" "dragGeometry h = Some d"
    and "radius h = Some R"
  shows "move G loc h = Done (h\<lparr>
     angle := angle_to \<lparr>px = lon loc, py = lat loc\<rparr> c,
     radius := Some (distanceTo \<lparr>px = lon loc, py = lat loc\<rparr> c),
     heap := (heap h)(d :=
        g_resize G
          (g_rotate G (heap h d) (nsub (angle_to \<lparr>px = lon loc, py = lat loc\<rparr> c) (angle h)) c)
          (ndiv (distanceTo \<lparr>px = lon loc, py = lat loc\<rparr> c) R) c),
     trace := trace h @ [DrawFeature (feature h)
        (map_option (\<lambda>f. ((heap h)(d :=
           g_resize G
             (g_rotate G (heap h d) (nsub (angle_to \<lparr>px = lon loc, py = lat loc\<rparr> c) (angle h)) c)
             (ndiv (distanceTo \<lparr>px = lon loc, py = lat loc\<rparr> c) R) c)) (f_geometry f))
          (feature h))]\<rparr>)"
  using move_result [OF assms(1-4), of G loc] assms(5) by simp

theorem move_rotates_then_scales_witness:
  "geometry ex_dragging = Some 0 \<and> layer ex_dragging \<and> origin ex_dragging = Some (pt 1 1) \<and>
   dragGeometry ex_dragging = Some 1 \<and> radius ex_dragging = Some (Fin 10) \<and>
   angle (state_of (move pts_ops (lonlat_at 1 6) ex_dragging)) = Fin 90 \<and>
   radius (state_of (move pts_ops (lonlat_at 1 6) ex_dragging)) = Some (Fin 5) \<and>
   heap (state_of (move pts_ops (lonlat_at 1 6) ex_dragging)) 1 =
     [pt 1 1, pt 1 6, pt (- (3 / 2)) (7 / 2)] \<and>
   trace (state_of (move pts_ops (lonlat_at 1 6) ex_dragging)) =
     trace ex_dragging @
       [DrawFeature (Some (Feature 1)) (Some [pt 1 1, pt 1 6, pt (- (3 / 2)) (7 / 2)])]"
proof -
  have h: "geometry ex_dragging = Some 0" "layer ex_dragging" "origin ex_dragging = Some (pt 1 1)"
    "dragGeometry ex_dragging = Some 1" "radius ex_dragging = Some (Fin 10)"
    by (simp_all add: ex_dragging_eq)
  show ?thesis
    using move_rotates_then_scales [OF h, of pts_ops "lonlat_at 1 6"] h
    by (simp add: ex_dragging_eq eval_defs)
qed


section \<open>Bounds of a point list with finite coordinates\<close>

lemma finite_pt_ptp: "finite_pt p \<Longrightarrow> \<exists>q. p = ptp q"
  by (cases p; cases "px p"; cases "py p") (auto simp: finite_pt_def is_finite_def ptp_def pt_def)

lemma finite_list_ptp:
  "\<forall>p\<in>set ps. finite_pt p \<Longrightarrow> \<exists>qs. ps = map ptp qs"
proof (induction ps)
  case Nil
  then show ?case by simp
next
  case (Cons p ps)
  then obtain qs where "ps = map ptp qs" by auto
  moreover have "finite_pt p" using Cons.prems by simp
  then obtain q where "p = ptp q" using finite_pt_ptp by blast
  ultimately have "p # ps = map ptp (q # qs)" by simp
  then show ?case by (rule exI)
qed

lemma foldl_extend_fin:
  "foldl extendBounds \<lparr>b_left = Fin l, b_bottom = Fin b, b_right = Fin r, b_top = Fin u\<rparr> (map ptp qs) =
     \<lparr>b_left = Fin (foldl min l (map fst qs)), b_bottom = Fin (foldl min b (map snd qs)),
      b_right = Fin (foldl max r (map fst qs)), b_top = Fin (foldl max u (map snd qs))\<rparr>"
proof (induction qs arbitrary: l b r u)
  case Nil
  then show ?case by simp
next
  case (Cons q qs)
  have "extendBounds \<lparr>b_left = Fin l, b_bottom = Fin b, b_right = Fin r, b_top = Fin u\<rparr> (ptp q) =
        \<lparr>b_left = Fin (min l (fst q)), b_bottom = Fin (min b (snd q)),
         b_right = Fin (max r (fst q)), b_top = Fin (max u (snd q))\<rparr>"
    by (simp add: extendBounds_def ptp_def pt_def min_def max_def)
  then show ?case using Cons.IH by simp
qed

lemma pts_bounds_fin:
  "pts_bounds (map ptp (q # qs)) =
     Some \<lparr>b_left = Fin (foldl min (fst q) (map fst qs)), b_bottom = Fin (foldl min (snd q) (map snd qs)),
      b_right = Fin (foldl max (fst q) (map fst qs)), b_top = Fin (foldl max (snd q) (map snd qs))\<rparr>"
  using foldl_extend_fin [of "fst q" "snd q" "fst q" "snd q" qs] by (simp add: ptp_def pt_def)

lemma foldl_min_affine:
  fixes f c :: real
  assumes "0 \<le> f"
  shows "foldl min (f * l + c) (map (\<lambda>x. f * x + c) xs) = f * foldl min l xs + c"
proof (induction xs arbitrary: l)
  case Nil
  then show ?case by simp
next
  case (Cons x xs)
  have "min (f * l + c) (f * x + c) = f * min l x + c"
  proof (cases "l \<le> x")
    case True
    then have "f * l \<le> f * x" using assms by (rule mult_left_mono)
    then show ?thesis using True by (simp add: min_def)
  next
    case False
    then have "f * x \<le> f * l" using assms by (simp add: mult_left_mono)
    then show ?thesis using False by (simp add: min_def)
  qed
  then show ?case using Cons.IH [of "min l x"] by simp
qed

lemma foldl_max_affine:
  fixes f c :: real
  assumes "0 \<le> f"
  shows "foldl max (f * l + c) (map (\<lambda>x. f * x + c) xs) = f * foldl max l xs + c"
proof (induction xs arbitrary: l)
  case Nil
  then show ?case by simp
next
  case (Cons x xs)
  have "max (f * l + c) (f * x + c) = f * max l x + c"
  proof (cases "l \<le> x")
    case True
    then have "f * l \<le> f * x" using assms by (rule mult_left_mono)
    then show ?thesis using True by (simp add: max_def)
  next
    case False
    then have "f * x \<le> f * l" using assms by (simp add: mult_left_mono)
    then show ?thesis using False by (simp add: max_def)
  qed
  then show ?case using Cons.IH [of "max l x"] by simp
qed

lemma move_pt_ptp: "move_pt (Fin dx) (Fin dy) (ptp q) = ptp (1 * fst q + dx, 1 * snd q + dy)"
  by (simp add: move_pt_def ptp_def pt_def)

lemma resize_pt_ptp:
  "resize_pt (Fin f) (pt ox oy) (ptp q) = ptp (f * fst q + (ox - f * ox), f * snd q + (oy - f * oy))"
  by (simp add: resize_pt_def ptp_def pt_def nsub_def algebra_simps)

lemma pts_bounds_affine:
  assumes "0 \<le> f" "0 \<le> g"
  shows "pts_bounds (map ptp (map (\<lambda>q. (f * fst q + c, g * snd q + e)) (q # qs))) =
     Some \<lparr>b_left = Fin (f * foldl min (fst q) (map fst qs) + c),
           b_bottom = Fin (g * foldl min (snd q) (map snd qs) + e),
           b_right = Fin (f * foldl max (fst q) (map fst qs) + c),
           b_top = Fin (g * foldl max (snd q) (map snd qs) + e)\<rparr>"
proof -
  have x: "map fst (map (\<lambda>q. (f * fst q + c, g * snd q + e)) qs) = map (\<lambda>x. f * x + c) (map fst qs)"
    by (simp add: o_def)
  have y: "map snd (map (\<lambda>q. (f * fst q + c, g * snd q + e)) qs) = map (\<lambda>x. g * x + e) (map snd qs)"
    by (simp add: o_def)
  have "pts_bounds (map ptp (map (\<lambda>q. (f * fst q + c, g * snd q + e)) (q # qs))) =
        pts_bounds (map ptp ((f * fst q + c, g * snd q + e) # map (\<lambda>q. (f * fst q + c, g * snd q + e)) qs))"
    by simp
  also have "\<dots> = Some \<lparr>b_left = Fin (foldl min (f * fst q + c) (map (\<lambda>x. f * x + c) (map fst qs))),
           b_bottom = Fin (foldl min (g * snd q + e) (map (\<lambda>x. g * x + e) (map snd qs))),
           b_right = Fin (foldl max (f * fst q + c) (map (\<lambda>x. f * x + c) (map fst qs))),
           b_top = Fin (foldl max (g * snd q + e) (map (\<lambda>x. g * x + e) (map snd qs)))\<rparr>"
    unfolding pts_bounds_fin x y by simp
  finally show ?thesis
    by (simp only: foldl_min_affine [OF assms(1)] foldl_max_affine [OF assms(1)]
          foldl_min_affine [OF assms(2)] foldl_max_affine [OF assms(2)])
qed

text \<open>
  The point-list geometry translates its bounds under \<open>move\<close>, whatever finite shape
  it holds; a rotation keeps the coordinates finite; and \<open>resize\<close> by a factor that is
  not negative multiplies the horizontal width by the factor. These are facts of the exact
  arithmetic of the model.
\<close>

lemma pts_move_shifts_bounds:
  assumes "\<forall>p\<in>set ps. finite_pt p" "pts_bounds ps = Some b"
  shows "pts_bounds (map (move_pt (Fin dx) (Fin dy)) ps) = Some (shift_bounds b (Fin dx) (Fin dy))"
proof -
  obtain qs0 where "ps = map ptp qs0" using finite_list_ptp [OF assms(1)] by blast
  with assms(2) obtain q qs where qs: "ps = map ptp (q # qs)" by (cases qs0) auto
  have "map (move_pt (Fin dx) (Fin dy)) ps =
        map ptp (map (\<lambda>q. (1 * fst q + dx, 1 * snd q + dy)) (q # qs))"
    unfolding qs by (simp add: move_pt_ptp [simplified])
  then have "pts_bounds (map (move_pt (Fin dx) (Fin dy)) ps) =
     Some \<lparr>b_left = Fin (1 * foldl min (fst q) (map fst qs) + dx),
           b_bottom = Fin (1 * foldl min (snd q) (map snd qs) + dy),
           b_right = Fin (1 * foldl max (fst q) (map fst qs) + dx),
           b_top = Fin (1 * foldl max (snd q) (map snd qs) + dy)\<rparr>"
    using pts_bounds_affine [of 1 1 dx dy q qs] by simp
  moreover have "b = \<lparr>b_left = Fin (foldl min (fst q) (map fst qs)),
           b_bottom = Fin (foldl min (snd q) (map snd qs)),
           b_right = Fin (foldl max (fst q) (map fst qs)),
           b_top = Fin (foldl max (snd q) (map snd qs))\<rparr>"
    using assms(2) unfolding qs pts_bounds_fin by simp
  ultimately show ?thesis by (simp add: shift_bounds_def)
qed


lemma rotate_pt_ptp:
  "rotate_pt (Fin a) (pt ox oy) (ptp q) =
     ptp (ox + ((fst q - ox) * cos (a * (pi / 180)) - (snd q - oy) * sin (a * (pi / 180))),
          oy + ((fst q - ox) * sin (a * (pi / 180)) + (snd q - oy) * cos (a * (pi / 180))))"
  by (simp add: rotate_pt_def ptp_def pt_def nsub_def Let_def)

lemma finite_pt_ptp_iff [simp]: "finite_pt (ptp q)"
  by (simp add: finite_pt_def is_finite_def ptp_def pt_def)

lemma pts_rotate_finite:
  assumes "\<forall>p\<in>set ps. finite_pt p"
  shows "\<forall>p\<in>set (map (rotate_pt (Fin a) (pt ox oy)) ps). finite_pt p"
proof -
  obtain qs where "ps = map ptp qs" using finite_list_ptp [OF assms] by blast
  then show ?thesis by (simp add: rotate_pt_ptp)
qed

lemma pts_resize_scales_width:
  assumes "\<forall>p\<in>set ps. finite_pt p" "pts_bounds ps = Some br" "0 \<le> f"
  shows "\<exists>bs. pts_bounds (map (resize_pt (Fin f) (pt ox oy)) ps) = Some bs \<and>
              width_of bs = nmul (Fin f) (width_of br)"
proof -
  obtain qs0 where "ps = map ptp qs0" using finite_list_ptp [OF assms(1)] by blast
  with assms(2) obtain q qs where qs: "ps = map ptp (q # qs)" by (cases qs0) auto
  define L where "L = foldl min (fst q) (map fst qs)"
  define R where "R = foldl max (fst q) (map fst qs)"
  have br: "b_left br = Fin L" "b_right br = Fin R"
    using assms(2) unfolding qs pts_bounds_fin L_def R_def by auto
  have "map (resize_pt (Fin f) (pt ox oy)) ps =
     map ptp (map (\<lambda>q. (f * fst q + (ox - f * ox), f * snd q + (oy - f * oy))) (q # qs))"
    unfolding qs by (simp add: resize_pt_ptp)
  then have "pts_bounds (map (resize_pt (Fin f) (pt ox oy)) ps) =
     Some \<lparr>b_left = Fin (f * L + (ox - f * ox)),
           b_bottom = Fin (f * foldl min (snd q) (map snd qs) + (oy - f * oy)),
           b_right = Fin (f * R + (ox - f * ox)),
           b_top = Fin (f * foldl max (snd q) (map snd qs) + (oy - f * oy))\<rparr>"
    using pts_bounds_affine [OF assms(3) assms(3), of "ox - f * ox" "oy - f * oy" q qs]
    by (simp add: L_def R_def)
  moreover have "\<bar>f * R + (ox - f * ox) - (f * L + (ox - f * ox))\<bar> = f * \<bar>R - L\<bar>"
    using assms(3) by (simp add: abs_mult flip: right_diff_distrib)
  ultimately show ?thesis
    by (simp add: width_of_def nsub_def br)
qed


section \<open>Start of a drag\<close>

text \<open>
  C7, as stated, fails where the clone has no bounds: for a template without
  coordinates the host leaves \<open>bounds\<close> null, and \<open>down\<close> throws inside
  \<open>measureWidth\<close>, before the radius is set and before anything is translated.
\<close>

theorem start_without_bounds_counterexample:
  "geometry (fresh {} ([] :: point list)) = Some 0 \<and> layer (fresh {} ([] :: point list)) \<and>
   raised (down pts_ops (lonlat_at 1 1) (fresh {} [])) \<and>
   radius (state_of (down pts_ops (lonlat_at 1 1) (fresh {} []))) = None"
  by (simp add: eval_defs)

text \<open>
  C7, amended. On \<open>down\<close> with a template set, the sketch layer present and the clone
  having bounds \<open>b\<close>, the handler does not throw; the working geometry is a new object,
  the origin is the pointer position, and the radius is the absolute value of
  \<open>right - left\<close> of the clone's recomputed bounds (for finite \<open>l\<close> and \<open>r\<close> the number
  \<open>\<bar>r - l\<bar>\<close>, also where \<open>r < l\<close>). The working geometry is the clone moved by the
  origin minus the bottom-left corner of \<open>b\<close>. The bottom-left corner of its bounds is
  then the origin wherever the host's \<open>move\<close> translates the bounds of this shape and
  adding each offset back to the corner gives the origin's coordinate, which floating-point
  rounding can prevent.
\<close>

theorem down_seeds_radius_and_anchors:
  assumes "geometry h = Some t" "layer h"
    and "g_calculateBounds G (g_clone G (heap h t)) = Some b"
  shows "\<not> raised (down G loc h) \<and>
     dragGeometry (state_of (down G loc h)) = Some (nxt h) \<and>
     origin (state_of (down G loc h)) = Some \<lparr>px = lon loc, py = lat loc\<rparr> \<and>
     radius (state_of (down G loc h)) = Some (nabs (nsub (b_right b) (b_left b))) \<and>
     (b_left b = Fin l \<and> b_right b = Fin r \<longrightarrow>
        radius (state_of (down G loc h)) = Some (Fin \<bar>r - l\<bar>)) \<and>
     heap (state_of (down G loc h)) (nxt h) =
       g_move G (g_clone G (heap h t)) (nsub (lon loc) (b_left b)) (nsub (lat loc) (b_bottom b)) \<and>
     (nadd (b_left b) (nsub (lon loc) (b_left b)) = lon loc \<and>
      nadd (b_bottom b) (nsub (lat loc) (b_bottom b)) = lat loc \<and>
      g_calculateBounds G (g_move G (g_clone G (heap h t))
          (nsub (lon loc) (b_left b)) (nsub (lat loc) (b_bottom b))) =
        Some (shift_bounds b (nsub (lon loc) (b_left b)) (nsub (lat loc) (b_bottom b)))
      \<longrightarrow> (\<exists>b'. g_calculateBounds G (heap (state_of (down G loc h)) (nxt h)) = Some b' \<and>
                b_left b' = lon loc \<and> b_bottom b' = lat loc))"
proof -
  note dr = down_result [OF assms, of loc]
  show ?thesis
    by (auto simp: dr width_of_def shift_bounds_def nsub_def)
qed

theorem down_seeds_radius_and_anchors_witness:
  "geometry ex_idle = Some 0 \<and> layer ex_idle \<and>
   g_calculateBounds pts_ops (g_clone pts_ops (heap ex_idle 0)) =
     Some \<lparr>b_left = Fin 2, b_bottom = Fin 3, b_right = Fin 12, b_top = Fin 8\<rparr> \<and>
   radius (state_of (down pts_ops (lonlat_at 1 1) ex_idle)) = Some (Fin 10) \<and>
   heap (state_of (down pts_ops (lonlat_at 1 1) ex_idle)) 1 = [pt 1 1, pt 11 1, pt 6 6] \<and>
   g_calculateBounds pts_ops (heap (state_of (down pts_ops (lonlat_at 1 1) ex_idle)) 1) =
     Some \<lparr>b_left = Fin 1, b_bottom = Fin 1, b_right = Fin 11, b_top = Fin 6\<rparr> \<and>
   g_calculateBounds ex_mirror_ops (g_clone ex_mirror_ops (heap ex_idle 0)) =
     Some \<lparr>b_left = Fin 12, b_bottom = Fin 3, b_right = Fin 2, b_top = Fin 8\<rparr> \<and>
   nsub (Fin 2) (Fin 12) = Fin (- 10) \<and>
   radius (state_of (down ex_mirror_ops (lonlat_at 1 1) ex_idle)) = Some (Fin 10) \<and>
   heap (state_of (down ex_mirror_ops (lonlat_at 1 1) ex_idle)) 1 = [pt (- 9) 1, pt 1 1, pt (- 4) 6] \<and>
   g_calculateBounds ex_mirror_ops (heap (state_of (down ex_mirror_ops (lonlat_at 1 1) ex_idle)) 1) =
     Some \<lparr>b_left = Fin 1, b_bottom = Fin 1, b_right = Fin (- 9), b_top = Fin 6\<rparr>"
proof -
  have h: "geometry ex_idle = Some 0" "layer ex_idle"
    by (simp_all add: ex_idle_def fresh_def)
  have b: "g_calculateBounds pts_ops (g_clone pts_ops (heap ex_idle 0)) =
     Some \<lparr>b_left = Fin 2, b_bottom = Fin 3, b_right = Fin 12, b_top = Fin 8\<rparr>"
    by (simp add: ex_idle_def ex_triangle_def eval_defs)
  have m: "g_calculateBounds ex_mirror_ops (g_clone ex_mirror_ops (heap ex_idle 0)) =
     Some \<lparr>b_left = Fin 12, b_bottom = Fin 3, b_right = Fin 2, b_top = Fin 8\<rparr>"
    by (simp add: ex_idle_def ex_triangle_def ex_mirror_ops_def flip_bounds_def eval_defs)
  have n: "nxt ex_idle = 1" by (simp add: ex_idle_def fresh_def)
  show ?thesis
    using down_seeds_radius_and_anchors [OF h b, where loc = "lonlat_at 1 1" and l = 2 and r = 12]
      down_seeds_radius_and_anchors [OF h m, where loc = "lonlat_at 1 1" and l = 12 and r = 2]
      h b m
    by (simp add: n) (simp add: ex_idle_def ex_triangle_def ex_mirror_ops_def flip_bounds_def eval_defs)
qed

text \<open>
  C4. The claim is that the "create" callback receives the origin and the feature. At
  the input below (the triangle as template, "create" registered, pointer down at (1, 1))
  the handler passes these two to \<open>callback\<close>, which drops them: the registered function
  receives one argument, a clone (object 2) of the working geometry (object 1).
\<close>

theorem create_callback_receives_clone:
  "trace (state_of (down pts_ops (lonlat_at 1 1) ex_idle)) =
     [RendererClear, DestroyFeatures, AddFeatures (Feature 1), Callback ''create'' [GeometryArg 2]] \<and>
   dragGeometry (state_of (down pts_ops (lonlat_at 1 1) ex_idle)) = Some 1 \<and>
   Callback ''create'' [GeometryArg 2] \<noteq> Callback ''create'' [PointArg (pt 1 1), FeatureArg (Feature 1)]"
  by (simp add: ex_idle_def ex_triangle_def eval_defs)

text \<open>
  The arguments handed to \<open>callback\<close> never matter.
\<close>

lemma callback_ignores_args: "callback G name args h = callback G name None h"
  by (simp add: callback_def)


section \<open>The first move after the start\<close>

text \<open>
  C2, as stated, fails: the first move rotates before it scales. The segment from (0, 0)
  to (10, 0) has width 10; after \<open>down\<close> at (0, 0) and a first move to (0, 20), at
  distance 20, the segment stands upright and its horizontal width is 0, not 20.
\<close>

theorem first_move_width_counterexample:
  "radius (state_of (down pts_ops (lonlat_at 0 0) (fresh {} ex_segment))) = Some (Fin 10) \<and>
   distanceTo (pt 0 20) (pt 0 0) = Fin 20 \<and>
   measureWidth pts_ops (state_of (move pts_ops (lonlat_at 0 20)
      (state_of (down pts_ops (lonlat_at 0 0) (fresh {} ex_segment))))) = Inr (Fin 0) \<and>
   measureWidth pts_ops (state_of (move pts_ops (lonlat_at 0 20)
      (state_of (down pts_ops (lonlat_at 0 0) (fresh {} ex_segment))))) \<noteq> Inr (Fin 20)"
  by (simp add: ex_segment_def eval_defs)

text \<open>
  C2, amended. For a template whose clone has bounds of width \<open>W\<close>: \<open>down\<close> seeds
  the radius to \<open>W\<close>; a first move at distance \<open>D\<close> from the origin stores \<open>D\<close> and
  leaves the working geometry rotated by the pointer's angle minus the stored angle and
  then resized by the factor \<open>D / W\<close>, both about the origin. For a host whose \<open>resize\<close>
  multiplies the width of this shape by the factor, the horizontal width after the move is
  \<open>D / W\<close> times the width of the rotated shape. It is \<open>D\<close> whenever the rotated shape
  still has the width \<open>W\<close> (as after the half turn of a pointer to the left of the origin)
  and \<open>(D / W) * W\<close> gives back \<open>D\<close>, which floating-point rounding can prevent.
\<close>

theorem first_move_scales_rotated_shape:
  fixes G :: "'g geometry_ops" and h :: "'g handler" and start loc :: lonlat
  defines "C \<equiv> \<lparr>px = lon start, py = lat start\<rparr>"
    and "P \<equiv> \<lparr>px = lon loc, py = lat loc\<rparr>"
    and "h1 \<equiv> state_of (down G start h)"
  defines "h2 \<equiv> state_of (move G loc h1)"
    and "S \<equiv> g_rotate G (heap h1 (nxt h)) (nsub (angle_to P C) (angle h)) C"
  assumes "geometry h = Some t" "layer h"
    and "g_calculateBounds G (g_clone G (heap h t)) = Some b"
  shows "radius h1 = Some (width_of b) \<and>
         radius h2 = Some (distanceTo P C) \<and>
         heap h2 (nxt h) = g_resize G S (ndiv (distanceTo P C) (width_of b)) C \<and>
         (g_calculateBounds G S = Some br \<and>
          g_calculateBounds G (g_resize G S (ndiv (distanceTo P C) (width_of b)) C) = Some bs \<and>
          width_of bs = nmul (ndiv (distanceTo P C) (width_of b)) (width_of br) \<longrightarrow>
            measureWidth G h2 = Inr (nmul (ndiv (distanceTo P C) (width_of b)) (width_of br)) \<and>
            (width_of br = width_of b \<and>
             nmul (ndiv (distanceTo P C) (width_of b)) (width_of b) = distanceTo P C \<longrightarrow>
               measureWidth G h2 = Inr (distanceTo P C)))"
proof -
  note dr = down_result [OF assms(6-8), of start]
  have h1: "geometry h1 = Some t" "layer h1" "origin h1 = Some C" "dragGeometry h1 = Some (nxt h)"
    "radius h1 = Some (width_of b)" "angle h1 = angle h"
    unfolding h1_def dr C_def using assms(6,7) by simp_all
  note mr = move_result [OF h1(1-4), of G loc]
  have r2: "radius h2 = Some (distanceTo P C)" "dragGeometry h2 = Some (nxt h)"
    unfolding h2_def mr P_def by (simp_all add: h1(4))
  have s2: "heap h2 (nxt h) = g_resize G S (ndiv (distanceTo P C) (width_of b)) C"
    unfolding h2_def mr S_def P_def by (simp add: h1(5,6))
  have mw: "measureWidth G h2 = Inr (width_of bs)"
    if "g_calculateBounds G (g_resize G S (ndiv (distanceTo P C) (width_of b)) C) = Some bs"
    using that by (simp add: measureWidth_def r2(2) s2 width_of_def)
  show ?thesis
    using h1(5) r2(1) s2 mw by auto
qed

theorem first_move_scales_rotated_shape_witness:
  "geometry ex_idle = Some 0 \<and> layer ex_idle \<and>
   g_calculateBounds pts_ops (g_clone pts_ops (heap ex_idle 0)) =
     Some \<lparr>b_left = Fin 2, b_bottom = Fin 3, b_right = Fin 12, b_top = Fin 8\<rparr> \<and>
   radius (state_of (down pts_ops (lonlat_at 1 1) ex_idle)) = Some (Fin 10) \<and>
   distanceTo (pt (- 4) 1) (pt 1 1) = Fin 5 \<and>
   g_rotate pts_ops (heap (state_of (down pts_ops (lonlat_at 1 1) ex_idle)) 1) (Fin 180) (pt 1 1) =
     [pt 1 1, pt (- 9) 1, pt (- 4) (- 4)] \<and>
   heap (state_of (move pts_ops (lonlat_at (- 4) 1) (state_of (down pts_ops (lonlat_at 1 1) ex_idle)))) 1 =
     [pt 1 1, pt (- 4) 1, pt (- (3 / 2)) (- (3 / 2))] \<and>
   measureWidth pts_ops
     (state_of (move pts_ops (lonlat_at (- 4) 1) (state_of (down pts_ops (lonlat_at 1 1) ex_idle)))) =
     Inr (Fin 5)"
proof -
  let ?C = "\<lparr>px = lon (lonlat_at 1 1), py = lat (lonlat_at 1 1)\<rparr>"
  let ?P = "\<lparr>px = lon (lonlat_at (- 4) 1), py = lat (lonlat_at (- 4) 1)\<rparr>"
  let ?b = "\<lparr>b_left = Fin 2, b_bottom = Fin 3, b_right = Fin 12, b_top = Fin 8\<rparr>"
  let ?br = "\<lparr>b_left = Fin (- 9), b_bottom = Fin (- 4), b_right = Fin 1, b_top = Fin 1\<rparr>"
  let ?bs = "\<lparr>b_left = Fin (- 4), b_bottom = Fin (- (3 / 2)), b_right = Fin 1, b_top = Fin 1\<rparr>"
  let ?h1 = "state_of (down pts_ops (lonlat_at 1 1) ex_idle)"
  let ?h2 = "state_of (move pts_ops (lonlat_at (- 4) 1) ?h1)"
  let ?S = "g_rotate pts_ops (heap ?h1 (nxt ex_idle)) (nsub (angle_to ?P ?C) (angle ex_idle)) ?C"
  let ?f = "ndiv (distanceTo ?P ?C) (width_of ?b)"
  have h: "geometry ex_idle = Some 0" "layer ex_idle"
    by (simp_all add: ex_idle_def fresh_def)
  have b: "g_calculateBounds pts_ops (g_clone pts_ops (heap ex_idle 0)) = Some ?b"
    by (simp add: ex_idle_def ex_triangle_def eval_defs)
  have d: "distanceTo ?P ?C = Fin 5" "distanceTo (pt (- 4) 1) (pt 1 1) = Fin 5"
    by (simp_all add: eval_defs)
  have S: "?S = [pt 1 1, pt (- 9) 1, pt (- 4) (- 4)]"
    by (simp add: ex_idle_def ex_triangle_def eval_defs)
  have S': "g_rotate pts_ops (heap ?h1 1) (Fin 180) (pt 1 1) = [pt 1 1, pt (- 9) 1, pt (- 4) (- 4)]"
    by (simp add: ex_idle_def ex_triangle_def eval_defs)
  have br: "g_calculateBounds pts_ops ?S = Some ?br"
    unfolding S by (simp add: eval_defs)
  have Z: "g_resize pts_ops ?S ?f ?C = [pt 1 1, pt (- 4) 1, pt (- (3 / 2)) (- (3 / 2))]"
    unfolding S d by (simp add: eval_defs)
  have bs: "g_calculateBounds pts_ops (g_resize pts_ops ?S ?f ?C) = Some ?bs"
    unfolding Z by (simp add: eval_defs)
  have w: "width_of ?bs = nmul ?f (width_of ?br)" "width_of ?br = width_of ?b"
    "nmul ?f (width_of ?b) = distanceTo ?P ?C" "width_of ?b = Fin 10"
    unfolding d by (simp_all add: width_of_def nsub_def)
  have n: "nxt ex_idle = 1" by (simp add: ex_idle_def fresh_def)
  from first_move_scales_rotated_shape [OF h b, where start = "lonlat_at 1 1"
        and loc = "lonlat_at (- 4) 1" and br = ?br and bs = ?bs]
  have A: "radius ?h1 = Some (width_of ?b)"
    and B: "heap ?h2 (nxt ex_idle) = g_resize pts_ops ?S ?f ?C"
    and M: "measureWidth pts_ops ?h2 = Inr (distanceTo ?P ?C)"
    using br bs w(1,2,3) by blast+
  have r1: "radius ?h1 = Some (Fin 10)" using A by (simp only: w(4))
  have "heap ?h2 (nxt ex_idle) = [pt 1 1, pt (- 4) 1, pt (- (3 / 2)) (- (3 / 2))]"
    using B Z by (rule trans)
  then have r2: "heap ?h2 1 = [pt 1 1, pt (- 4) 1, pt (- (3 / 2)) (- (3 / 2))]"
    by (simp only: n)
  have r3: "measureWidth pts_ops ?h2 = Inr (Fin 5)" using M by (simp only: d(1))
  show ?thesis
    by (intro conjI h b d(2) S' r1 r2 r3)
qed

text \<open>
  C3. The claim is that a zero previous radius is guarded. At the input below (the
  upright segment from (3, 0) to (3, 7), of width 0, as template) \<open>down\<close> at (0, 0) does
  not reject the template and seeds the radius to 0; the move to (10, 0) divides 10 by 0,
  resizes by the infinite factor, and leaves NaN and Infinity in the working geometry.
\<close>

theorem zero_width_scale_not_guarded:
  "\<not> raised (down pts_ops (lonlat_at 0 0) (fresh {} ex_vertical)) \<and>
   radius (state_of (down pts_ops (lonlat_at 0 0) (fresh {} ex_vertical))) = Some (Fin 0) \<and>
   heap (state_of (down pts_ops (lonlat_at 0 0) (fresh {} ex_vertical))) 1 = [pt 0 0, pt 0 7] \<and>
   \<not> raised (move pts_ops (lonlat_at 10 0) (state_of (down pts_ops (lonlat_at 0 0) (fresh {} ex_vertical)))) \<and>
   heap (state_of (move pts_ops (lonlat_at 10 0)
      (state_of (down pts_ops (lonlat_at 0 0) (fresh {} ex_vertical))))) 1 =
     [\<lparr>px = NaN, py = NaN\<rparr>, \<lparr>px = NaN, py = PosInf\<rparr>]"
  by (simp add: ex_vertical_def eval_defs)


section \<open>No template, no session\<close>

text \<open>
  C5, as stated, fails for \<open>move\<close>: the guard of \<open>move\<close> tests the template, not the
  session. With a template set and no origin (before the first drag, or after \<open>up\<close>) a
  move event throws when it reads the origin.
\<close>

theorem move_without_session_counterexample:
  "origin ex_idle = None \<and>
   move pts_ops (lonlat_at 1 6) ex_idle = Raised TypeError ex_idle \<and>
   origin (state_of (up ex_dragging)) = None \<and>
   move pts_ops (lonlat_at 1 6) (state_of (up ex_dragging)) = Raised TypeError (state_of (up ex_dragging))"
  by (simp add: ex_idle_def ex_dragging_eq eval_defs)

text \<open>
  C5, amended. With no template set, \<open>down\<close> and \<open>move\<close> both return at once and
  leave the handler as it is: no session, no host call, no exception.
\<close>

theorem no_template_is_noop:
  assumes "geometry h = None"
  shows "down G loc h = Done h \<and> move G loc h = Done h"
  using assms by (simp add: down_def move_def)

theorem no_template_is_noop_witness:
  "geometry (setGeometry None ex_idle) = None \<and>
   down pts_ops (lonlat_at 1 1) (setGeometry None ex_idle) = Done (setGeometry None ex_idle) \<and>
   move pts_ops (lonlat_at 1 6) (setGeometry None ex_idle) = Done (setGeometry None ex_idle)"
proof -
  have h: "geometry (setGeometry None ex_idle) = None" by (simp add: setGeometry_def)
  show ?thesis using no_template_is_noop [OF h, of pts_ops] h by simp
qed


section \<open>The template is never written\<close>

lemma callback_keeps:
  assumes "store_ok h t"
  shows "store_ok (state_of (callback G name args h)) t \<and>
         heap (state_of (callback G name args h)) t = heap h t \<and>
         layer (state_of (callback G name args h)) = layer h"
  using assms
  by (auto simp: callback_def store_ok_def clone_at_def Let_def split: option.splits)

lemma down_keeps:
  assumes "store_ok h t"
  shows "store_ok (state_of (down G loc h)) t \<and> heap (state_of (down G loc h)) t = heap h t \<and>
         layer (state_of (down G loc h)) = layer h"
  using assms
  apply (simp add: down_def Let_def measureWidth_def clone_at_def split: option.splits sum.splits)
  apply (auto simp: store_ok_def callback_def clone_at_def Let_def split: option.splits)
  done

lemma move_keeps:
  assumes "store_ok h t"
  shows "store_ok (state_of (move G loc h)) t \<and> heap (state_of (move G loc h)) t = heap h t \<and>
         layer (state_of (move G loc h)) = layer h"
  using assms
  by (auto simp: move_def store_ok_def calculateAngle_def Let_def split: option.splits sum.splits)

lemma cancel_keeps:
  assumes "store_ok h t"
  shows "store_ok (state_of (cancel G h)) t \<and> heap (state_of (cancel G h)) t = heap h t \<and>
         layer (state_of (cancel G h)) = layer h"
  using callback_keeps [OF assms, of G "''cancel''" None]
  by (cases "callback G ''cancel'' None h") (auto simp: cancel_def finalize_def store_ok_def)

lemma handle_keeps:
  assumes "store_ok h t"
  shows "store_ok (state_of (handle G e h)) t \<and> heap (state_of (handle G e h)) t = heap h t \<and>
         layer (state_of (handle G e h)) = layer h"
proof (cases e)
  case (Down loc)
  then show ?thesis using down_keeps [OF assms] by simp
next
  case (Move loc)
  then show ?thesis using move_keeps [OF assms] by simp
next
  case Up
  then show ?thesis using assms by (simp add: up_def finalize_def store_ok_def)
next
  case Out
  then show ?thesis using assms by (simp add: out_def finalize_def store_ok_def)
next
  case Cancel
  then show ?thesis using cancel_keeps [OF assms] by simp
qed

lemma run_keeps:
  assumes "store_ok h t"
  shows "store_ok (run G evs h) t \<and> heap (run G evs h) t = heap h t \<and> layer (run G evs h) = layer h"
  using assms
proof (induction evs arbitrary: h)
  case Nil
  then show ?case by simp
next
  case (Cons e evs)
  from handle_keeps [OF Cons.prems, of G e]
  have ok: "store_ok (state_of (handle G e h)) t"
    and hp: "heap (state_of (handle G e h)) t = heap h t"
    and ly: "layer (state_of (handle G e h)) = layer h" by simp_all
  from Cons.IH [OF ok] show ?case by (simp add: hp ly)
qed

text \<open>
  C6. Let the template be an object of the store other than the working geometry. After
  any sequence of \<open>down\<close>, \<open>move\<close>, \<open>up\<close>, \<open>out\<close> and \<open>cancel\<close> events, thrown
  exceptions included, the handler still holds the same template object with the same
  content. A \<open>down\<close> after such a sequence makes a new object its working geometry, whose
  content and radius are computed from the template's original content and the pointer
  position alone.
\<close>

theorem template_never_mutated:
  assumes "geometry h = Some t" "t < nxt h" "dragGeometry h \<noteq> Some t"
  shows "geometry (run G evs h) = Some t \<and> heap (run G evs h) t = heap h t \<and>
         (layer h \<and> g_calculateBounds G (g_clone G (heap h t)) = Some b \<longrightarrow>
            dragGeometry (state_of (down G loc (run G evs h))) = Some (nxt (run G evs h)) \<and>
            t < nxt (run G evs h) \<and>
            radius (state_of (down G loc (run G evs h))) = Some (width_of b) \<and>
            heap (state_of (down G loc (run G evs h))) (nxt (run G evs h)) =
              g_move G (g_clone G (heap h t)) (nsub (lon loc) (b_left b)) (nsub (lat loc) (b_bottom b)))"
proof -
  have ok: "store_ok h t" using assms by (simp add: store_ok_def)
  from run_keeps [OF ok, of G evs]
  have r: "geometry (run G evs h) = Some t" "t < nxt (run G evs h)"
      "heap (run G evs h) t = heap h t" "layer (run G evs h) = layer h"
    by (simp_all add: store_ok_def)
  show ?thesis
  proof (intro conjI impI)
    assume a: "layer h \<and> g_calculateBounds G (g_clone G (heap h t)) = Some b"
    then have l: "layer (run G evs h)"
      and gb: "g_calculateBounds G (g_clone G (heap (run G evs h) t)) = Some b"
      by (simp_all add: r)
    note dr = down_result [OF r(1) l gb, of loc]
    show "dragGeometry (state_of (down G loc (run G evs h))) = Some (nxt (run G evs h))"
      by (simp add: dr)
    show "radius (state_of (down G loc (run G evs h))) = Some (width_of b)"
      by (simp add: dr)
    show "heap (state_of (down G loc (run G evs h))) (nxt (run G evs h)) =
              g_move G (g_clone G (heap h t)) (nsub (lon loc) (b_left b)) (nsub (lat loc) (b_bottom b))"
      by (simp add: dr r(3))
  qed (simp_all add: r)
qed

theorem template_never_mutated_witness:
  "geometry ex_idle = Some 0 \<and> (0::nat) < nxt ex_idle \<and> dragGeometry ex_idle \<noteq> Some 0 \<and>
   heap (run pts_ops [Down (lonlat_at 1 1), Move (lonlat_at 1 6), Move (lonlat_at 5 4), Up, Cancel] ex_idle) 0 = ex_triangle \<and>
   heap (state_of (down pts_ops (lonlat_at 0 0)
      (run pts_ops [Down (lonlat_at 1 1), Move (lonlat_at 1 6), Move (lonlat_at 5 4), Up, Cancel] ex_idle)))
      (nxt (run pts_ops [Down (lonlat_at 1 1), Move (lonlat_at 1 6), Move (lonlat_at 5 4), Up, Cancel] ex_idle))
     = [pt 0 0, pt 10 0, pt 5 5]"
proof -
  have h: "geometry ex_idle = Some 0" "0 < nxt ex_idle" "dragGeometry ex_idle \<noteq> Some 0"
    by (simp_all add: ex_idle_def fresh_def)
  have l: "layer ex_idle" by (simp add: ex_idle_def fresh_def)
  have b: "g_calculateBounds pts_ops (g_clone pts_ops (heap ex_idle 0)) =
     Some \<lparr>b_left = Fin 2, b_bottom = Fin 3, b_right = Fin 12, b_top = Fin 8\<rparr>"
    by (simp add: ex_idle_def ex_triangle_def eval_defs)
  have e: "heap ex_idle 0 = ex_triangle" by (simp add: ex_idle_def fresh_def)
  have m: "g_move pts_ops (g_clone pts_ops ex_triangle)
       (nsub (lon (lonlat_at 0 0)) (Fin 2)) (nsub (lat (lonlat_at 0 0)) (Fin 3)) = [pt 0 0, pt 10 0, pt 5 5]"
    by (simp add: ex_triangle_def eval_defs)
  show ?thesis
    using template_never_mutated [OF h, of pts_ops
        "[Down (lonlat_at 1 1), Move (lonlat_at 1 6), Move (lonlat_at 5 4), Up, Cancel]"
        "\<lparr>b_left = Fin 2, b_bottom = Fin 3, b_right = Fin 12, b_top = Fin 8\<rparr>" "lonlat_at 0 0"]
      h l b
    by (simp add: e m)
qed


section \<open>End of a drag\<close>

text \<open>
  C8. With a template set, a working geometry \<open>d\<close> in the store and a "cancel"
  callback registered, \<open>cancel\<close> clears the sketch layer and applies the callback to a
  new object, different from \<open>d\<close>, whose content is the clone of the content of \<open>d\<close>;
  \<open>d\<close> itself is unchanged. It then does what \<open>up\<close> does to the resulting state: origin
  absent, angle 0.
\<close>

theorem cancel_delivers_clone:
  assumes "geometry h = Some t" "dragGeometry h = Some d" "d < nxt h" "''cancel'' \<in> callbacks h"
  shows "\<exists>hc. callback G ''cancel'' None h = Done hc \<and> cancel G h = up hc \<and>
           trace hc = trace (clear h) @ [Callback ''cancel'' [GeometryArg (nxt h)]] \<and>
           nxt h \<noteq> d \<and> heap hc (nxt h) = g_clone G (heap h d) \<and>
           heap hc d = heap h d \<and> dragGeometry hc = Some d \<and>
           origin (state_of (cancel G h)) = None \<and> angle (state_of (cancel G h)) = Fin 0"
  using assms(2,3)
  by (simp add: callback_cancel_result [OF assms(1,2,4)] cancel_def up_def finalize_def)

theorem cancel_delivers_clone_witness:
  "geometry ex_dragging = Some 0 \<and> dragGeometry ex_dragging = Some 1 \<and> (1::nat) < nxt ex_dragging \<and>
   ''cancel'' \<in> callbacks ex_dragging \<and>
   trace (state_of (cancel pts_ops ex_dragging)) =
     trace ex_dragging @ [RendererClear, DestroyFeatures, Callback ''cancel'' [GeometryArg 3]] \<and>
   heap (state_of (cancel pts_ops ex_dragging)) 3 = [pt 1 1, pt 11 1, pt 6 6] \<and>
   origin (state_of (cancel pts_ops ex_dragging)) = None \<and>
   angle (state_of (cancel pts_ops ex_dragging)) = Fin 0"
proof -
  have h: "geometry ex_dragging = Some 0" "dragGeometry ex_dragging = Some 1"
    "1 < nxt ex_dragging" "''cancel'' \<in> callbacks ex_dragging"
    by (simp_all add: ex_dragging_eq)
  show ?thesis
    using cancel_delivers_clone [OF h, of pts_ops] h
    by (auto simp: ex_dragging_eq eval_defs)
qed

text \<open>
  C9, as stated, fails: on a handler with a template and a "cancel" callback on which no
  drag has started yet (no session is active), \<open>cancel\<close> throws, since there is no working
  geometry to clone.
\<close>

theorem cancel_before_first_drag_counterexample:
  "origin ex_idle = None \<and> angle ex_idle = Fin 0 \<and> raised (cancel pts_ops ex_idle)"
  by (simp add: ex_idle_def eval_defs)

text \<open>
  C9, amended. \<open>up\<close> (and \<open>out\<close>) never throws, sets the origin to absent and the
  angle to 0, changes nothing else and makes no host call, so no "cancel" event; a second
  \<open>up\<close> gives the same state. \<open>cancel\<close> followed by \<open>up\<close> throws nothing and leaves
  origin absent and angle 0 whenever a working geometry exists, or no template is set, or
  no "cancel" callback is registered.
\<close>

theorem end_resets_and_is_idempotent:
  "up h = Done (h\<lparr>origin := None, angle := Fin 0\<rparr>) \<and> out h = up h \<and>
   trace (state_of (up h)) = trace h \<and>
   up (state_of (up h)) = up h \<and>
   (dragGeometry h \<noteq> None \<or> geometry h = None \<or> ''cancel'' \<notin> callbacks h \<longrightarrow>
      \<not> raised (cancel G h) \<and>
      up (state_of (cancel G h)) = Done (state_of (cancel G h)) \<and>
      origin (state_of (cancel G h)) = None \<and> angle (state_of (cancel G h)) = Fin 0)"
  by (cases h) (auto simp: up_def out_def finalize_def cancel_def callback_def Let_def clone_at_def clear_def)

theorem end_resets_and_is_idempotent_witness:
  "dragGeometry ex_dragging \<noteq> None \<and>
   origin (state_of (up ex_dragging)) = None \<and> angle (state_of (up ex_dragging)) = Fin 0 \<and>
   trace (state_of (up ex_dragging)) = trace ex_dragging \<and>
   up (state_of (up ex_dragging)) = up ex_dragging \<and>
   \<not> raised (cancel pts_ops ex_dragging) \<and>
   up (state_of (cancel pts_ops ex_dragging)) = Done (state_of (cancel pts_ops ex_dragging))"
proof -
  have h: "dragGeometry ex_dragging \<noteq> None" by (simp add: ex_dragging_eq)
  show ?thesis
    using end_resets_and_is_idempotent [of ex_dragging pts_ops] h
    by (simp add: up_def finalize_def)
qed

text \<open>
  C10. \<open>up\<close> changes the origin and the angle only: template, working geometry,
  feature, radius, layer, callbacks, store and trace stay. So with a template set, a working
  geometry \<open>d\<close> left by a session and a "cancel" callback registered, \<open>cancel\<close> after
  \<open>up\<close> is not a no-op: the callback receives a new clone of the content of \<open>d\<close>.
\<close>

theorem cancel_after_end_delivers_clone:
  assumes "geometry h = Some t" "dragGeometry h = Some d" "''cancel'' \<in> callbacks h"
  shows "\<exists>h1. up h = Done h1 \<and> origin h1 = None \<and> angle h1 = Fin 0 \<and>
           geometry h1 = geometry h \<and> dragGeometry h1 = dragGeometry h \<and>
           feature h1 = feature h \<and> radius h1 = radius h \<and> layer h1 = layer h \<and>
           callbacks h1 = callbacks h \<and> heap h1 = heap h \<and> nxt h1 = nxt h \<and>
           trace h1 = trace h \<and>
           (\<exists>h2. cancel G h1 = Done h2 \<and> h2 \<noteq> h1 \<and>
              trace h2 = trace (clear h) @ [Callback ''cancel'' [GeometryArg (nxt h)]] \<and>
              heap h2 (nxt h) = g_clone G (heap h d))"
proof -
  define h1 where "h1 = finalize h"
  have f: "geometry h1 = Some t" "dragGeometry h1 = Some d" "''cancel'' \<in> callbacks h1"
    using assms by (simp_all add: h1_def finalize_def)
  have c: "clear h1 = finalize (clear h)" by (simp add: h1_def clear_def finalize_def)
  define h2 where "h2 = finalize ((clear h1)\<lparr>heap := (heap h1)(nxt h1 := g_clone G (heap h1 d)),
       nxt := nxt h1 + 1, trace := trace (clear h1) @ [Callback ''cancel'' [GeometryArg (nxt h1)]]\<rparr>)"
  have "cancel G h1 = Done h2"
    by (simp add: cancel_def callback_cancel_result [OF f] h2_def)
  moreover have "nxt h2 \<noteq> nxt h1" by (simp add: h2_def finalize_def)
  then have "h2 \<noteq> h1" by auto
  moreover have "trace h2 = trace (clear h) @ [Callback ''cancel'' [GeometryArg (nxt h)]]"
    by (simp add: h2_def c) (simp add: finalize_def h1_def)
  moreover have "heap h2 (nxt h) = g_clone G (heap h d)"
    by (simp add: h2_def finalize_def h1_def)
  moreover have "up h = Done h1" by (simp add: up_def h1_def)
  ultimately show ?thesis
    by (simp add: h1_def finalize_def)
qed

theorem cancel_after_end_delivers_clone_witness:
  "geometry ex_dragging = Some 0 \<and> dragGeometry ex_dragging = Some 1 \<and>
   ''cancel'' \<in> callbacks ex_dragging \<and>
   radius (state_of (up ex_dragging)) = Some (Fin 10) \<and>
   trace (state_of (cancel pts_ops (state_of (up ex_dragging)))) =
     trace ex_dragging @ [RendererClear, DestroyFeatures, Callback ''cancel'' [GeometryArg 3]] \<and>
   heap (state_of (cancel pts_ops (state_of (up ex_dragging)))) 3 = [pt 1 1, pt 11 1, pt 6 6]"
proof -
  have h: "geometry ex_dragging = Some 0" "dragGeometry ex_dragging = Some 1"
    "''cancel'' \<in> callbacks ex_dragging"
    by (simp_all add: ex_dragging_eq)
  show ?thesis
    using cancel_after_end_delivers_clone [OF h, of pts_ops] h
    by (auto simp: ex_dragging_eq eval_defs)
qed


end
